theory Spec2Isabelle
  imports Complex_Main "HOL-Library.Sublist" "HOL-Library.Multiset"
begin

text \<open>
  The cafeteria application: registration for lunch, the till of the day, its totals
  and its closing. The model follows app.py, the variant that keeps its three tables
  in SQLite. The variant app\_sheets.py applies the same rules to the rows of a
  spreadsheet; its \<open>pretty_fr_header\<close>, which reads a table of its own, is modelled
  beside the one of app.py.
\<close>

section \<open>Python strings\<close>

text \<open>
  Names and dates are Python \<open>str\<close> values. They are modelled as \<^typ>\<open>string\<close>, one
  \<^typ>\<open>char\<close> per code point, for text in the ASCII range (the registration keyboard of
  the page offers digits, capital letters, space and three punctuation signs). The
  whitespace of \<open>str.strip()\<close> and \<open>str.split()\<close> in that range is TAB, LF, VT, FF, CR,
  FS, GS, RS, US and the space; \<open>str.upper()\<close> and \<open>str.lower()\<close> move the 26 letters
  and leave every other character as it is.
\<close>

definition is_space :: "char \<Rightarrow> bool" where
  "is_space c = (c \<in> set [CHR 0x09, CHR 0x0A, CHR 0x0B, CHR 0x0C, CHR 0x0D,
                            CHR 0x1C, CHR 0x1D, CHR 0x1E, CHR 0x1F, CHR '' ''])"

definition upper_char :: "char \<Rightarrow> char" where
  "upper_char c =
     (case map_of (zip ''abcdefghijklmnopqrstuvwxyz'' ''ABCDEFGHIJKLMNOPQRSTUVWXYZ'') c of
        Some u \<Rightarrow> u
      | None \<Rightarrow> c)"

definition lower_char :: "char \<Rightarrow> char" where
  "lower_char c =
     (case map_of (zip ''ABCDEFGHIJKLMNOPQRSTUVWXYZ'' ''abcdefghijklmnopqrstuvwxyz'') c of
        Some l \<Rightarrow> l
      | None \<Rightarrow> c)"

definition upper :: "string \<Rightarrow> string" where
  "upper s = map upper_char s"

definition lower :: "string \<Rightarrow> string" where
  "lower s = map lower_char s"

text \<open>\<open>s.strip()\<close>: whitespace removed at both ends.\<close>

definition strip :: "string \<Rightarrow> string" where
  "strip s = rev (dropWhile is_space (rev (dropWhile is_space s)))"

text \<open>
  \<open>s.split()\<close> without a separator: the maximal runs of characters that are not
  whitespace. \<open>cur\<close> is the word being read.
\<close>

fun split_ws :: "string \<Rightarrow> string \<Rightarrow> string list" where
  "split_ws cur [] = (if cur = [] then [] else [cur])"
| "split_ws cur (c # cs) =
     (if is_space c then (if cur = [] then split_ws [] cs else cur # split_ws [] cs)
      else split_ws (cur @ [c]) cs)"

text \<open>\<open>s.split(sep)\<close> with a one-character separator: always at least one part.\<close>

fun split_on :: "char \<Rightarrow> string \<Rightarrow> string \<Rightarrow> string list" where
  "split_on sep cur [] = [cur]"
| "split_on sep cur (c # cs) =
     (if c = sep then cur # split_on sep [] cs else split_on sep (cur @ [c]) cs)"

text \<open>\<open>sep.join(parts)\<close>.\<close>

fun join :: "string \<Rightarrow> string list \<Rightarrow> string" where
  "join sep [] = []"
| "join sep [x] = x"
| "join sep (x # y # ys) = x @ sep @ join sep (y # ys)"

text \<open>\<open>sub in s\<close> for strings: \<open>sub\<close> occurs as a contiguous block of \<open>s\<close>.\<close>

fun starts_with :: "string \<Rightarrow> string \<Rightarrow> bool" where
  "starts_with [] s = True"
| "starts_with (a # as) [] = False"
| "starts_with (a # as) (c # cs) = (a = c \<and> starts_with as cs)"

fun str_in :: "string \<Rightarrow> string \<Rightarrow> bool" where
  "str_in sub [] = (sub = [])"
| "str_in sub (c # cs) = (starts_with sub (c # cs) \<or> str_in sub cs)"

text \<open>
  \<open>norm_name\<close> (app.py line 99, app\_sheets.py line 96):
  \<^verbatim>\<open>return " ".join((s or "").strip().upper().split())\<close>
\<close>

definition norm_name :: "string \<Rightarrow> string" where
  "norm_name s = join '' '' (split_ws [] (upper (strip s)))"

section \<open>Python integers and dates\<close>

datatype error =
    DayClosedOrNotOpen   \<comment> \<open>HTTP 400, "Le ... est ferme, impossible de reserver."\<close>
  | QuotaExceeded        \<comment> \<open>HTTP 400, "Quota de 40 atteint pour le ..."\<close>
  | NotFound             \<comment> \<open>HTTP 400, "Pas de reservation trouvee pour ..."\<close>
  | Closed               \<comment> \<open>HTTP 400, "Caisse fermee pour ..."\<close>
  | CapacityExceeded     \<comment> \<open>HTTP 400, "Limite de 45 menus servis atteinte pour ..."\<close>
  | ValueError           \<comment> \<open>an uncaught Python \<open>ValueError\<close>\<close>

definition is_digit :: "char \<Rightarrow> bool" where
  "is_digit c = (c \<in> set ''0123456789'')"

definition digit_val :: "char \<Rightarrow> nat" where
  "digit_val c = (case map_of (zip ''0123456789'' [0, 1, 2, 3, 4, 5, 6, 7, 8, 9]) c of
                    Some n \<Rightarrow> n
                  | None \<Rightarrow> 0)"

definition digit_char :: "nat \<Rightarrow> char" where
  "digit_char n = ''0123456789'' ! (n mod 10)"

text \<open>
  \<open>int(text)\<close> in base ten: surrounding whitespace is dropped, one sign is allowed,
  and the digits may be grouped by single underscores. \<open>None\<close> is the \<open>ValueError\<close>.
  In \<open>parse_digits\<close> the flag says that the previous character was a digit.
\<close>

fun parse_digits :: "bool \<Rightarrow> nat \<Rightarrow> string \<Rightarrow> nat option" where
  "parse_digits prev acc [] = (if prev then Some acc else None)"
| "parse_digits prev acc (c # cs) =
     (if is_digit c then parse_digits True (acc * 10 + digit_val c) cs
      else if c = CHR ''_'' \<and> prev then parse_digits False acc cs
      else None)"

definition py_int :: "string \<Rightarrow> int option" where
  "py_int s =
     (case strip s of
        [] \<Rightarrow> None
      | c # cs \<Rightarrow>
          if c = CHR ''-'' then map_option (\<lambda>n. - int n) (parse_digits False 0 cs)
          else if c = CHR ''+'' then map_option int (parse_digits False 0 cs)
          else map_option int (parse_digits False 0 (c # cs)))"

text \<open>The decimal digits of a natural number, and the format \<open>{n:0wd}\<close>.\<close>

function show_nat :: "nat \<Rightarrow> string" where
  "show_nat n = (if n < 10 then [digit_char n] else show_nat (n div 10) @ [digit_char n])"
  by pat_completeness auto
termination
  by (relation "measure id") auto

definition zfill :: "nat \<Rightarrow> string \<Rightarrow> string" where
  "zfill w s = replicate (w - length s) (CHR ''0'') @ s"

definition fmt_d :: "nat \<Rightarrow> int \<Rightarrow> string" where
  "fmt_d w n = (if n < 0 then CHR ''-'' # zfill (w - 1) (show_nat (nat (- n)))
                else zfill w (show_nat (nat n)))"

text \<open>
  \<open>datetime.date(y, m, d)\<close> and \<open>date.weekday()\<close> of the Python library: the proleptic
  Gregorian calendar, the years 1 to 9999, Monday is 0 and Sunday is 6.
\<close>

definition is_leap :: "int \<Rightarrow> bool" where
  "is_leap y = (y mod 4 = 0 \<and> (y mod 100 \<noteq> 0 \<or> y mod 400 = 0))"

definition days_in_month :: "int \<Rightarrow> int \<Rightarrow> int" where
  "days_in_month y m =
     (if m = 2 then (if is_leap y then 29 else 28)
      else if m = 4 \<or> m = 6 \<or> m = 9 \<or> m = 11 then 30 else 31)"

definition date_ok :: "int \<Rightarrow> int \<Rightarrow> int \<Rightarrow> bool" where
  "date_ok y m d =
     (1 \<le> y \<and> y \<le> 9999 \<and> 1 \<le> m \<and> m \<le> 12 \<and> 1 \<le> d \<and> d \<le> days_in_month y m)"

definition days_before_year :: "int \<Rightarrow> int" where
  "days_before_year y = (y - 1) * 365 + (y - 1) div 4 - (y - 1) div 100 + (y - 1) div 400"

definition days_before_month :: "int \<Rightarrow> int \<Rightarrow> int" where
  "days_before_month y m = sum_list (map (days_in_month y) [1..m - 1])"

definition toordinal :: "int \<Rightarrow> int \<Rightarrow> int \<Rightarrow> int" where
  "toordinal y m d = days_before_year y + days_before_month y m + d"

definition weekday :: "int \<Rightarrow> int \<Rightarrow> int \<Rightarrow> nat" where
  "weekday y m d = nat ((toordinal y m d + 6) mod 7)"

text \<open>
  What a request reads from outside the store: the clock (\<open>today_iso()\<close>, the local
  date as \<open>yyyy-mm-dd\<close>) and the library's generic parser
  \<open>datetime.fromisoformat(s).date().isoformat()\<close>, \<open>None\<close> where it raises.
\<close>

record env =
  today_iso :: string
  fromisoformat :: "string \<Rightarrow> string option"

text \<open>
  \<open>pretty_fr_header\<close> of app.py (lines 70 and 76 to 79):
  \<^verbatim>\<open>
  DAYS = ["Dimanche","Lundi","Mardi","Mercredi","Jeudi","Vendredi","Samedi"]
  y, m, d = map(int, iso.split("-"))
  dt = date(y, m, d)
  return f"{DAYS[dt.weekday()+1 if dt.weekday()<6 else 0]} {d:02d}.{m:02d}"\<close>
  The unpacking raises unless there are three parts, \<open>int\<close> and \<open>date\<close> raise on bad
  text and bad dates. The index is at most 6, so the table lookup is in range.
\<close>

definition DAYS :: "string list" where
  "DAYS = [''Dimanche'', ''Lundi'', ''Mardi'', ''Mercredi'', ''Jeudi'', ''Vendredi'', ''Samedi'']"

definition parse_ymd :: "string \<Rightarrow> error + (int \<times> int \<times> int)" where
  "parse_ymd isod =
     (case split_on (CHR ''-'') [] isod of
        [ys, ms, ds] \<Rightarrow>
          (case (py_int ys, py_int ms, py_int ds) of
             (Some y, Some m, Some d) \<Rightarrow> Inr (y, m, d)
           | _ \<Rightarrow> Inl ValueError)
      | _ \<Rightarrow> Inl ValueError)"

definition pretty_fr_header :: "string \<Rightarrow> error + string" where
  "pretty_fr_header isod =
     (case parse_ymd isod of
        Inl e \<Rightarrow> Inl e
      | Inr (y, m, d) \<Rightarrow>
          if date_ok y m d then
            Inr (DAYS ! (if weekday y m d < 6 then weekday y m d + 1 else 0)
                 @ '' '' @ fmt_d 2 d @ ''.'' @ fmt_d 2 m)
          else Inl ValueError)"

text \<open>
  \<open>pretty_fr_header\<close> of app\_sheets.py (lines 75 to 80), with its own table:
  \<^verbatim>\<open>
  days = ["Lundi","Mardi","Mercredi","Jeudi","Vendredi","Samedi","Dimanche"]
  return f"{days[dt.weekday()]} {d:02d}.{m:02d}"\<close>
\<close>

definition days_sheets :: "string list" where
  "days_sheets = [''Lundi'', ''Mardi'', ''Mercredi'', ''Jeudi'', ''Vendredi'', ''Samedi'', ''Dimanche'']"

definition pretty_fr_header_sheets :: "string \<Rightarrow> error + string" where
  "pretty_fr_header_sheets isod =
     (case parse_ymd isod of
        Inl e \<Rightarrow> Inl e
      | Inr (y, m, d) \<Rightarrow>
          if date_ok y m d then
            Inr (days_sheets ! weekday y m d @ '' '' @ fmt_d 2 d @ ''.'' @ fmt_d 2 m)
          else Inl ValueError)"

text \<open>
  \<open>to_iso_any\<close> of app.py (lines 81 to 97). The dotted branch stands before the
  \<open>try\<close>: what \<open>split\<close>, the unpacking and \<open>int\<close> raise there reaches the caller.
  \<^verbatim>\<open>
  s = (s or "").strip()
  if not s: return today_iso()
  if len(s) == 10 and s[2] == "." and s[5] == ".":
      dd, mm, yyyy = s.split(".")
      return f"{int(yyyy):04d}-{int(mm):02d}-{int(dd):02d}"
  if len(s) == 10 and s[4] == "-" and s[7] == "-": return s
  try: return datetime.fromisoformat(s).date().isoformat()
  except Exception: return today_iso()\<close>
\<close>

definition to_iso_any :: "env \<Rightarrow> string \<Rightarrow> error + string" where
  "to_iso_any e s0 =
     (let s = strip s0 in
      if s = [] then Inr (today_iso e)
      else if length s = 10 \<and> s ! 2 = CHR ''.'' \<and> s ! 5 = CHR ''.'' then
        (case split_on (CHR ''.'') [] s of
           [dd, mm, yyyy] \<Rightarrow>
             (case (py_int yyyy, py_int mm, py_int dd) of
                (Some y, Some m, Some d) \<Rightarrow>
                  Inr (fmt_d 4 y @ ''-'' @ fmt_d 2 m @ ''-'' @ fmt_d 2 d)
              | _ \<Rightarrow> Inl ValueError)
         | _ \<Rightarrow> Inl ValueError)
      else if length s = 10 \<and> s ! 4 = CHR ''-'' \<and> s ! 7 = CHR ''-'' then Inr s
      else (case fromisoformat e s of Some d \<Rightarrow> Inr d | None \<Rightarrow> Inr (today_iso e)))"

text \<open>
  \<open>to_iso_any\<close> of app\_sheets.py (lines 83 to 93) has no test for the empty text,
  which goes to the generic parser:
  \<^verbatim>\<open>
  s = (s or "").strip()
  if len(s) == 10 and s[2] == "." and s[5] == ".":
      dd, mm, yyyy = s.split(".")
      return f"{int(yyyy):04d}-{int(mm):02d}-{int(dd):02d}"
  if len(s) == 10 and s[4] == "-" and s[7] == "-": return s
  try: return datetime.fromisoformat(s).date().isoformat()
  except Exception: return today_iso()\<close>
\<close>

definition to_iso_any_sheets :: "env \<Rightarrow> string \<Rightarrow> error + string" where
  "to_iso_any_sheets e s0 =
     (let s = strip s0 in
      if length s = 10 \<and> s ! 2 = CHR ''.'' \<and> s ! 5 = CHR ''.'' then
        (case split_on (CHR ''.'') [] s of
           [dd, mm, yyyy] \<Rightarrow>
             (case (py_int yyyy, py_int mm, py_int dd) of
                (Some y, Some m, Some d) \<Rightarrow>
                  Inr (fmt_d 4 y @ ''-'' @ fmt_d 2 m @ ''-'' @ fmt_d 2 d)
              | _ \<Rightarrow> Inl ValueError)
         | _ \<Rightarrow> Inl ValueError)
      else if length s = 10 \<and> s ! 4 = CHR ''-'' \<and> s ! 7 = CHR ''-'' then Inr s
      else (case fromisoformat e s of Some d \<Rightarrow> Inr d | None \<Rightarrow> Inr (today_iso e)))"


section \<open>The store\<close>

text \<open>
  The three tables of app.py (lines 41 to 64). A table is the list of its rows in the
  order of their integer primary keys, which is the order in which SQLite scans it.
  The timestamps are left out: no request reads them. Amounts are Python floats; every
  amount the program writes is a multiple of 0.5 far below \<open>2^52\<close>, so sums of them are
  exact and are modelled as rationals.
\<close>

record ParamRow =
  pr_date_iso :: string
  pr_jour :: string
  pr_menu :: string
  pr_open :: bool
  pr_disabled :: bool

record Reservation =
  rs_id :: nat
  rs_date_iso :: string
  rs_name :: string

record TillRow =
  tr_date_iso :: string
  tr_name :: string
  tr_type :: string
  tr_base :: rat
  tr_beverage :: rat
  tr_chocolate :: rat
  tr_total :: rat

record db =
  params :: "ParamRow list"
  reservations :: "Reservation list"
  till :: "TillRow list"

text \<open>
  \<^verbatim>\<open>PRICES = {"ELEVE": 8.0, "PROF": 12.0, "SANDWICH": 6.0, "BOISSON": 2.0, "CHOCOLAT": 1.5}\<close>
  The program reads the table at these five literal keys only.
\<close>

definition PRICES :: "string \<Rightarrow> rat" where
  "PRICES k =
     (if k = ''ELEVE'' then 8 else if k = ''PROF'' then 12 else if k = ''SANDWICH'' then 6
      else if k = ''BOISSON'' then 2 else if k = ''CHOCOLAT'' then 3 / 2 else 0)"

definition MAX_MENUS :: int where
  "MAX_MENUS = 45"

section \<open>Requests\<close>

record ReserveIn =
  ri_name :: string
  ri_dateStr :: string

record UnreserveIn =
  ui_name :: string
  ui_dateStr :: string

record CheckoutIn =
  ci_name :: string
  ci_type :: string
  ci_beverage :: bool
  ci_chocolate :: bool
  ci_dateIso :: "string option"
  ci_method :: string

record QtyIn =
  qi_qty :: int
  qi_dateIso :: "string option"

record CloseIn =
  cl_dateIso :: "string option"

record Totals =
  menus :: int
  eleves :: int
  profs :: int
  sandwiches :: int
  beverages :: int
  chocolates :: int
  amount :: rat

record CaisseOut =
  co_date :: string
  co_closed :: bool
  co_names :: "string list"
  co_totals :: Totals

text \<open>\<open>x or default\<close> on an optional string: \<open>None\<close> and the empty string are falsy.\<close>

definition str_or :: "string option \<Rightarrow> string \<Rightarrow> string" where
  "str_or x dflt = (case x of None \<Rightarrow> dflt | Some v \<Rightarrow> if v = [] then dflt else v)"

text \<open>
  The primary key SQLite gives a new row of a table declared without
  \<open>AUTOINCREMENT\<close>: one more than the largest key in the table, 1 in an empty table.
\<close>

definition next_id :: "Reservation list \<Rightarrow> nat" where
  "next_id rs = fold max (map rs_id rs) 0 + 1"

text \<open>
  \<open>api_reserve\<close> (app.py lines 455 to 470):
  \<^verbatim>\<open>
  iso = to_iso_any(inp.dateStr)
  p = s.exec(select(ParamRow).where(ParamRow.date_iso == iso, ParamRow.open == True)).first()
  if not p: raise HTTPException(400, ...)
  cnt = s.exec(select(Reservation).where(Reservation.date_iso == iso)).all()
  if len(cnt) >= 40: raise HTTPException(400, ...)
  s.add(Reservation(date_iso=iso, name=inp.name.strip())); s.commit()\<close>
\<close>

definition api_reserve :: "env \<Rightarrow> db \<Rightarrow> ReserveIn \<Rightarrow> error + db" where
  "api_reserve e s inp =
     (case to_iso_any e (ri_dateStr inp) of
        Inl err \<Rightarrow> Inl err
      | Inr isod \<Rightarrow>
          (case find (\<lambda>p. pr_date_iso p = isod \<and> pr_open p) (params s) of
             None \<Rightarrow> Inl DayClosedOrNotOpen
           | Some p \<Rightarrow>
               if length (filter (\<lambda>r. rs_date_iso r = isod) (reservations s)) \<ge> 40
               then Inl QuotaExceeded
               else Inr (s\<lparr>reservations := reservations s @
                          [\<lparr>rs_id = next_id (reservations s), rs_date_iso = isod,
                            rs_name = strip (ri_name inp)\<rparr>]\<rparr>)))"

text \<open>
  \<open>api_unreserve\<close> (app.py lines 472 to 482). The loop returns at the first row it
  deletes; \<^const>\<open>remove1\<close> takes that row out of the table.
  \<^verbatim>\<open>
  iso = to_iso_any(inp.dateStr)
  target = (inp.name or "").strip()
  rows = s.exec(select(Reservation).where(Reservation.date_iso == iso)).all()
  for r in rows:
      if (r.name or "").strip() == target:
          s.delete(r); s.commit(); return ...
  raise HTTPException(400, ...)\<close>
\<close>

definition api_unreserve :: "env \<Rightarrow> db \<Rightarrow> UnreserveIn \<Rightarrow> error + db" where
  "api_unreserve e s inp =
     (case to_iso_any e (ui_dateStr inp) of
        Inl err \<Rightarrow> Inl err
      | Inr isod \<Rightarrow>
          (let target = strip (ui_name inp);
               rows = filter (\<lambda>r. rs_date_iso r = isod) (reservations s)
           in case find (\<lambda>r. strip (rs_name r) = target) rows of
                None \<Rightarrow> Inl NotFound
              | Some r \<Rightarrow> Inr (s\<lparr>reservations := remove1 r (reservations s)\<rparr>)))"

text \<open>\<open>is_closed\<close> (app.py lines 500 to 503): some till row of the date has type "Closed".\<close>

definition is_closed :: "db \<Rightarrow> string \<Rightarrow> bool" where
  "is_closed s isod =
     (find (\<lambda>x. tr_date_iso x = isod \<and> tr_type x = ''Closed'') (till s) \<noteq> None)"

text \<open>
  \<open>build_totals\<close> (app.py lines 505 to 529): one pass over the till rows of the date,
  which keeps the totals and the dictionary \<open>paidCount\<close>. \<open>totals_row\<close> is the body of
  the loop.
  \<^verbatim>\<open>
  typ = (row.type or "")
  if typ == "Closed": continue
  elif typ == "Sandwich": t.sandwiches += 1
  elif typ == "Boisson": t.beverages += 1
  elif typ == "Chocolat": t.chocolates += 1
  else:
      t.menus += 1
      if "eleve" in typ.lower(): t.eleves += 1
      else: t.profs += 1
      key = norm_name(row.name)
      if key: paidCount[key] = paidCount.get(key, 0) + 1
      if row.beverage > 0: t.beverages += 1
      if row.chocolate > 0: t.chocolates += 1
  t.amount += float(row.total)\<close>
\<close>

definition dict_get :: "(string \<rightharpoonup> int) \<Rightarrow> string \<Rightarrow> int" where
  "dict_get m k = (case m k of None \<Rightarrow> 0 | Some v \<Rightarrow> v)"

definition totals_row ::
  "Totals \<times> (string \<rightharpoonup> int) \<Rightarrow> TillRow \<Rightarrow> Totals \<times> (string \<rightharpoonup> int)" where
  "totals_row acc row =
     (let t = fst acc; paidCount = snd acc; typ = tr_type row in
      if typ = ''Closed'' then (t, paidCount)
      else if typ = ''Sandwich'' then
        (t\<lparr>sandwiches := sandwiches t + 1, amount := amount t + tr_total row\<rparr>, paidCount)
      else if typ = ''Boisson'' then
        (t\<lparr>beverages := beverages t + 1, amount := amount t + tr_total row\<rparr>, paidCount)
      else if typ = ''Chocolat'' then
        (t\<lparr>chocolates := chocolates t + 1, amount := amount t + tr_total row\<rparr>, paidCount)
      else
        (let key = norm_name (tr_name row) in
         (t\<lparr>menus := menus t + 1,
            eleves := (if str_in ''eleve'' (lower typ) then eleves t + 1 else eleves t),
            profs := (if str_in ''eleve'' (lower typ) then profs t else profs t + 1),
            beverages := (if tr_beverage row > 0 then beverages t + 1 else beverages t),
            chocolates := (if tr_chocolate row > 0 then chocolates t + 1 else chocolates t),
            amount := amount t + tr_total row\<rparr>,
          if key \<noteq> [] then paidCount(key \<mapsto> dict_get paidCount key + 1) else paidCount)))"

definition Totals0 :: Totals where
  "Totals0 = \<lparr>menus = 0, eleves = 0, profs = 0, sandwiches = 0, beverages = 0,
              chocolates = 0, amount = 0\<rparr>"

definition build_totals :: "db \<Rightarrow> string \<Rightarrow> Totals \<times> (string \<rightharpoonup> int)" where
  "build_totals s isod =
     foldl totals_row (Totals0, Map.empty) (filter (\<lambda>x. tr_date_iso x = isod) (till s))"

text \<open>
  \<open>api_caisse\<close> (app.py lines 531 to 549). \<open>remaining\<close> is its loop over the
  reservations, with the dictionary \<open>paid_left\<close>:
  \<^verbatim>\<open>
  iso = date if (date and len(date)==10) else today_iso()
  if is_closed(iso):
      t,_ = build_totals(iso)
      return CaisseOut(date=iso, closed=True, names=[], totals=t)
  ordered = s.exec(select(Reservation).where(Reservation.date_iso == iso)
                   .order_by(Reservation.id)).all()
  t, paidCount = build_totals(iso)
  remaining = []; paid_left = dict(paidCount)
  for r in ordered:
      k = norm_name(r.name)
      if paid_left.get(k, 0) > 0: paid_left[k] -= 1
      else: remaining.append(r.name)
  return CaisseOut(date=iso, closed=False, names=remaining, totals=t)\<close>
\<close>

fun remaining :: "(string \<rightharpoonup> int) \<Rightarrow> Reservation list \<Rightarrow> string list" where
  "remaining paid_left [] = []"
| "remaining paid_left (r # rs) =
     (let k = norm_name (rs_name r) in
      if dict_get paid_left k > 0 then remaining (paid_left(k \<mapsto> dict_get paid_left k - 1)) rs
      else rs_name r # remaining paid_left rs)"

definition ordered :: "db \<Rightarrow> string \<Rightarrow> Reservation list" where
  "ordered s isod = sort_key rs_id (filter (\<lambda>r. rs_date_iso r = isod) (reservations s))"

definition caisse_date :: "env \<Rightarrow> string option \<Rightarrow> string" where
  "caisse_date e date =
     (case date of
        None \<Rightarrow> today_iso e
      | Some d \<Rightarrow> if d \<noteq> [] \<and> length d = 10 then d else today_iso e)"

definition api_caisse :: "env \<Rightarrow> db \<Rightarrow> string option \<Rightarrow> CaisseOut" where
  "api_caisse e s date =
     (let isod = caisse_date e date in
      if is_closed s isod then
        \<lparr>co_date = isod, co_closed = True, co_names = [], co_totals = fst (build_totals s isod)\<rparr>
      else
        \<lparr>co_date = isod, co_closed = False,
         co_names = remaining (snd (build_totals s isod)) (ordered s isod),
         co_totals = fst (build_totals s isod)\<rparr>)"

text \<open>
  \<open>assert_open\<close> and \<open>assert_capacity\<close> (app.py lines 554 to 561). The message of the
  capacity error is built with \<open>pretty_fr_header(iso)\<close>, which raises on a text that is
  not a date.
\<close>

definition assert_open :: "db \<Rightarrow> string \<Rightarrow> error + unit" where
  "assert_open s isod = (if is_closed s isod then Inl Closed else Inr ())"

definition assert_capacity :: "db \<Rightarrow> string \<Rightarrow> error + unit" where
  "assert_capacity s isod =
     (if menus (fst (build_totals s isod)) \<ge> MAX_MENUS then
        (case pretty_fr_header isod of Inl err \<Rightarrow> Inl err | Inr h \<Rightarrow> Inl CapacityExceeded)
      else Inr ())"

text \<open>
  \<open>api_checkout\<close> (app.py lines 563 to 578):
  \<^verbatim>\<open>
  iso = inp.dateIso or today_iso()
  assert_open(iso); assert_capacity(iso)
  typ = (inp.type or "PROF").upper()
  method = (inp.method or "CASH").upper()
  base = PRICES["ELEVE"] if typ == "ELEVE" else PRICES["PROF"]
  bev = PRICES["BOISSON"] if inp.beverage else 0.0
  choc = PRICES["CHOCOLAT"] if inp.chocolate else 0.0
  total_cash = (bev + choc) if method == "CARD" else (base + bev + choc)
  type_label = ("Eleve" if typ == "ELEVE" else "Prof") + (" (CARD)" if method == "CARD" else " (CASH)")
  s.add(TillRow(date_iso=iso, name=inp.name.strip() or "Anonyme", type=type_label,
                base=base, beverage=bev, chocolate=choc, total=total_cash))
  return api_caisse(iso)\<close>
\<close>

definition checkout_row :: "string \<Rightarrow> CheckoutIn \<Rightarrow> TillRow" where
  "checkout_row isod inp =
     (let typ = upper (if ci_type inp = [] then ''PROF'' else ci_type inp);
          method = upper (if ci_method inp = [] then ''CASH'' else ci_method inp);
          base = (if typ = ''ELEVE'' then PRICES ''ELEVE'' else PRICES ''PROF'');
          bev = (if ci_beverage inp then PRICES ''BOISSON'' else 0);
          choc = (if ci_chocolate inp then PRICES ''CHOCOLAT'' else 0);
          total_cash = (if method = ''CARD'' then bev + choc else base + bev + choc);
          type_label = (if typ = ''ELEVE'' then ''Eleve'' else ''Prof'')
                       @ (if method = ''CARD'' then '' (CARD)'' else '' (CASH)'')
      in \<lparr>tr_date_iso = isod,
          tr_name = (if strip (ci_name inp) = [] then ''Anonyme'' else strip (ci_name inp)),
          tr_type = type_label, tr_base = base, tr_beverage = bev, tr_chocolate = choc,
          tr_total = total_cash\<rparr>)"

definition api_checkout :: "env \<Rightarrow> db \<Rightarrow> CheckoutIn \<Rightarrow> error + db \<times> CaisseOut" where
  "api_checkout e s inp =
     (let isod = str_or (ci_dateIso inp) (today_iso e) in
      case assert_open s isod of
        Inl err \<Rightarrow> Inl err
      | Inr u \<Rightarrow>
          (case assert_capacity s isod of
             Inl err \<Rightarrow> Inl err
           | Inr u \<Rightarrow>
               (let s' = s\<lparr>till := till s @ [checkout_row isod inp]\<rparr>
                in Inr (s', api_caisse e s' (Some isod)))))"

text \<open>
  The three add-on requests (app.py lines 580 to 611) differ in the row they write:
  \<^verbatim>\<open>
  iso = inp.dateIso or today_iso()
  assert_open(iso)
  n = max(1, int(inp.qty or 1))
  for _ in range(n):
      s.add(TillRow(date_iso=iso, type="Sandwich", base=PRICES["SANDWICH"], total=PRICES["SANDWICH"]))
  return api_caisse(iso)\<close>
\<close>

definition blank_row :: "string \<Rightarrow> string \<Rightarrow> TillRow" where
  "blank_row isod typ =
     \<lparr>tr_date_iso = isod, tr_name = [], tr_type = typ, tr_base = 0, tr_beverage = 0,
      tr_chocolate = 0, tr_total = 0\<rparr>"

definition api_add :: "TillRow \<Rightarrow> env \<Rightarrow> db \<Rightarrow> QtyIn \<Rightarrow> error + db \<times> CaisseOut" where
  "api_add row e s inp =
     (let isod = str_or (qi_dateIso inp) (today_iso e) in
      case assert_open s isod of
        Inl err \<Rightarrow> Inl err
      | Inr u \<Rightarrow>
          (let n = max 1 (if qi_qty inp = 0 then 1 else qi_qty inp);
               s' = s\<lparr>till := till s @ replicate (nat n) (row\<lparr>tr_date_iso := isod\<rparr>)\<rparr>
           in Inr (s', api_caisse e s' (Some isod))))"

definition api_add_sandwich :: "env \<Rightarrow> db \<Rightarrow> QtyIn \<Rightarrow> error + db \<times> CaisseOut" where
  "api_add_sandwich =
     api_add ((blank_row [] ''Sandwich'')
                \<lparr>tr_base := PRICES ''SANDWICH'', tr_total := PRICES ''SANDWICH''\<rparr>)"

definition api_add_beverage :: "env \<Rightarrow> db \<Rightarrow> QtyIn \<Rightarrow> error + db \<times> CaisseOut" where
  "api_add_beverage =
     api_add ((blank_row [] ''Boisson'')
                \<lparr>tr_beverage := PRICES ''BOISSON'', tr_total := PRICES ''BOISSON''\<rparr>)"

definition api_add_chocolate :: "env \<Rightarrow> db \<Rightarrow> QtyIn \<Rightarrow> error + db \<times> CaisseOut" where
  "api_add_chocolate =
     api_add ((blank_row [] ''Chocolat'')
                \<lparr>tr_chocolate := PRICES ''CHOCOLAT'', tr_total := PRICES ''CHOCOLAT''\<rparr>)"

text \<open>
  \<open>api_close\<close> (app.py lines 616 to 631) writes the marker row; the mail it may send
  first does not touch the store, and what sending raises is caught.
  \<^verbatim>\<open>
  iso = inp.dateIso or today_iso()
  s.add(TillRow(date_iso=iso, type="Closed")); s.commit()\<close>
\<close>

definition api_close :: "env \<Rightarrow> db \<Rightarrow> CloseIn \<Rightarrow> db" where
  "api_close e s inp =
     s\<lparr>till := till s @ [blank_row (str_or (cl_dateIso inp) (today_iso e)) ''Closed'']\<rparr>"

text \<open>
  A request of the API and what it leaves in the store: the new store where it
  succeeds, the old one where it raises (nothing was committed).
\<close>

datatype request =
    Reserve ReserveIn
  | Unreserve UnreserveIn
  | Checkout CheckoutIn
  | AddSandwich QtyIn
  | AddBeverage QtyIn
  | AddChocolate QtyIn
  | Close CloseIn

definition keep :: "db \<Rightarrow> error + db \<Rightarrow> db" where
  "keep s r = (case r of Inl err \<Rightarrow> s | Inr s' \<Rightarrow> s')"

fun step :: "env \<Rightarrow> db \<Rightarrow> request \<Rightarrow> db" where
  "step e s (Reserve inp) = keep s (api_reserve e s inp)"
| "step e s (Unreserve inp) = keep s (api_unreserve e s inp)"
| "step e s (Checkout inp) = keep s (map_sum id fst (api_checkout e s inp))"
| "step e s (AddSandwich inp) = keep s (map_sum id fst (api_add_sandwich e s inp))"
| "step e s (AddBeverage inp) = keep s (map_sum id fst (api_add_beverage e s inp))"
| "step e s (AddChocolate inp) = keep s (map_sum id fst (api_add_chocolate e s inp))"
| "step e s (Close inp) = api_close e s inp"

text \<open>A history: requests in the order they are served, each with the clock it saw.\<close>

fun run :: "db \<Rightarrow> (env \<times> request) list \<Rightarrow> db" where
  "run s [] = s"
| "run s ((e, q) # qs) = run (step e s q) qs"

section \<open>Notions used in the statements\<close>





subsection \<open>The till\<close>

text \<open>
  A meal row is a till row that is neither the closing marker nor an add-on: the last
  branch of the loop of \<open>build_totals\<close>.
\<close>

definition is_meal :: "TillRow \<Rightarrow> bool" where
  "is_meal x = (tr_type x \<notin> set [''Closed'', ''Sandwich'', ''Boisson'', ''Chocolat''])"



text \<open>
  Every meal row carries a name whose normalized form is not empty. \<open>api_checkout\<close>
  is the only writer of meal rows and writes "Anonyme" for a blank name, so every till
  the requests build has this property (\<open>run_named\<close> below).
\<close>

definition meal_rows_named :: "db \<Rightarrow> bool" where
  "meal_rows_named s = list_all (\<lambda>x. \<not> is_meal x \<or> norm_name (tr_name x) \<noteq> []) (till s)"



text \<open>The till rows of a date other than its closing markers.\<close>

definition sales :: "db \<Rightarrow> string \<Rightarrow> TillRow list" where
  "sales s d = filter (\<lambda>x. tr_date_iso x = d \<and> tr_type x \<noteq> ''Closed'') (till s)"

subsection \<open>Reservations\<close>





subsection \<open>Stores and requests of the examples\<close>

text \<open>A clock and a generic parser that accepts nothing.\<close>

definition env0 :: env where
  "env0 = \<lparr>today_iso = ''2026-11-03'', fromisoformat = (\<lambda>s. None)\<rparr>"

text \<open>Monday 17 March 2025, open for registration, nobody registered, nothing sold.\<close>

definition day0 :: string where
  "day0 = ''2025-03-17''"

definition open_day :: db where
  "open_day =
     \<lparr>params = [\<lparr>pr_date_iso = day0, pr_jour = ''Lundi'', pr_menu = ''Menu du jour'',
                 pr_open = True, pr_disabled = False\<rparr>],
      reservations = [], till = []\<rparr>"

definition student_cash_bev :: CheckoutIn where
  "student_cash_bev =
     \<lparr>ci_name = ''Alice'', ci_type = ''ELEVE'', ci_beverage = True, ci_chocolate = False,
      ci_dateIso = Some day0, ci_method = ''CASH''\<rparr>"

definition two_sandwiches :: QtyIn where
  "two_sandwiches = \<lparr>qi_qty = 2, qi_dateIso = Some day0\<rparr>"

definition close_day0 :: CloseIn where
  "close_day0 = \<lparr>cl_dateIso = Some day0\<rparr>"


definition closed_day :: db where
  "closed_day = open_day\<lparr>till := [blank_row day0 ''Closed'']\<rparr>"

definition misspelt_kind :: CheckoutIn where
  "misspelt_kind = student_cash_bev\<lparr>ci_type := ''eleves'', ci_beverage := False\<rparr>"

text \<open>Registrations: one request, and the day with \<open>n\<close> guests registered.\<close>

definition bob :: ReserveIn where
  "bob = \<lparr>ri_name = ''BOB'', ri_dateStr = ''17.03.2025''\<rparr>"





definition walk_in :: CheckoutIn where
  "walk_in = student_cash_bev\<lparr>ci_name := ''  '', ci_beverage := False\<rparr>"


section \<open>Decimal text\<close>

declare show_nat.simps [simp del]








lemma strip_id: "s \<noteq> [] \<Longrightarrow> \<not> is_space (hd s) \<Longrightarrow> \<not> is_space (last s) \<Longrightarrow> strip s = s"
proof -
  assume a: "s \<noteq> []" "\<not> is_space (hd s)" "\<not> is_space (last s)"
  then have 1: "dropWhile is_space s = s" by (cases s) simp_all
  from a have "dropWhile is_space (rev s) = rev s"
    by (cases "rev s") (simp_all add: last_rev[symmetric] hd_rev)
  with 1 show ?thesis by (simp add: strip_def)
qed














section \<open>The date codec\<close>

text \<open>
  The generic parser raises on the empty text, and then the two variants of
  \<open>to_iso_any\<close> are one function.
\<close>

lemma to_iso_any_sheets_eq:
  "fromisoformat e [] = None \<Longrightarrow> to_iso_any_sheets e s0 = to_iso_any e s0"
  by (simp add: to_iso_any_sheets_def to_iso_any_def Let_def)




section \<open>Weekday labels\<close>

lemma weekday_lt7: "weekday y m d < 7"
  by (simp add: weekday_def nat_less_iff)

lemma label_agree:
  assumes "w < 7"
  shows "DAYS ! (if w < 6 then w + 1 else 0) = days_sheets ! w"
proof -
  from assms consider "w = 0" | "w = 1" | "w = 2" | "w = 3" | "w = 4" | "w = 5" | "w = 6"
    by linarith
  then show ?thesis by cases (simp_all add: DAYS_def days_sheets_def)
qed

lemma headers_agree: "pretty_fr_header isod = pretty_fr_header_sheets isod"
  using label_agree[OF weekday_lt7]
  by (simp add: pretty_fr_header_def pretty_fr_header_sheets_def split: sum.splits prod.splits)

text \<open>
  C9, as the code has it. The two variants of \<open>pretty_fr_header\<close> return the same
  result on every text: app.py reads its Sunday-first table at the remapped index,
  app\_sheets.py reads its own Monday-first table at the index itself, and the two
  lookups name the same day for each of the seven weekdays.
\<close>

theorem pretty_fr_header_variants_agree:
  "pretty_fr_header isod = pretty_fr_header_sheets isod
   \<and> DAYS ! (if weekday y m d < 6 then weekday y m d + 1 else 0) = days_sheets ! weekday y m d"
  using headers_agree label_agree[OF weekday_lt7] by simp

text \<open>The claim as written fails: no date separates the two variants.\<close>

theorem weekday_labels_disagree_counterexample:
  "\<not> (\<exists>y m d. date_ok y m d \<and>
        DAYS ! (if weekday y m d < 6 then weekday y m d + 1 else 0) \<noteq> days_sheets ! weekday y m d)
   \<and> \<not> (\<exists>isod. pretty_fr_header isod \<noteq> pretty_fr_header_sheets isod)"
  using headers_agree label_agree[OF weekday_lt7] by simp

section \<open>Totals\<close>




section \<open>The remaining queue\<close>















section \<open>Names and till rows\<close>

lemma strip_ends:
  assumes "strip s \<noteq> []"
  shows "\<not> is_space (hd (strip s)) \<and> \<not> is_space (last (strip s))"
proof -
  let ?ys = "dropWhile is_space s"
  let ?zs = "dropWhile is_space (rev ?ys)"
  from assms have zs: "?zs \<noteq> []" by (simp add: strip_def)
  have ys: "?ys \<noteq> []"
  proof
    assume a: "?ys = []"
    have "?zs = []" by (simp only: a rev.simps dropWhile.simps)
    with zs show False by (simp only: not_False_eq_True)
  qed
  have "last (strip s) = hd ?zs" using zs by (simp add: strip_def last_rev)
  moreover have "\<not> is_space (hd ?zs)" using zs by (rule hd_dropWhile)
  moreover have "hd (strip s) = last ?zs" using zs by (simp add: strip_def hd_rev)
  moreover have "last ?zs = last (rev ?ys)"
  proof -
    have "rev ?ys = takeWhile is_space (rev ?ys) @ ?zs" by simp
    then have "last (rev ?ys) = last (takeWhile is_space (rev ?ys) @ ?zs)" by simp
    also have "\<dots> = last ?zs" using zs by (simp only: last_append if_False)
    finally show ?thesis by simp
  qed
  moreover have "last (rev ?ys) = hd ?ys" using ys by (simp add: last_rev)
  moreover have "\<not> is_space (hd ?ys)" using ys by (rule hd_dropWhile)
  ultimately show ?thesis by simp
qed

lemma strip_strip: "strip (strip s) = strip s"
proof (cases "strip s = []")
  case True
  have "strip [] = []" by (simp add: strip_def)
  with True show ?thesis by simp
next
  case False
  with strip_ends[OF False] show ?thesis by (simp add: strip_id)
qed

lemma upper_char_space: "is_space (upper_char c) = is_space c"
  by (auto simp: upper_char_def is_space_def split: option.splits if_splits)

lemma split_ws_nonempty:
  "cur \<noteq> [] \<or> (\<exists>c\<in>set v. \<not> is_space c) \<Longrightarrow> split_ws cur v \<noteq> []"
  by (induction v arbitrary: cur) auto

lemma split_ws_words: "[] \<notin> set (split_ws cur v)"
  by (induction v arbitrary: cur) auto

lemma join_nonempty: "ws \<noteq> [] \<Longrightarrow> [] \<notin> set ws \<Longrightarrow> join sep ws \<noteq> []"
  by (induction sep ws rule: join.induct) auto

lemma norm_name_nonempty:
  assumes "strip t \<noteq> []"
  shows "norm_name t \<noteq> []"
proof -
  from strip_ends[OF assms] assms have "\<exists>c\<in>set (strip t). \<not> is_space c"
    by (metis hd_in_set)
  then have "\<exists>c\<in>set (upper (strip t)). \<not> is_space c"
    by (auto simp: upper_def upper_char_space)
  then have "split_ws [] (upper (strip t)) \<noteq> []" by (simp add: split_ws_nonempty)
  then show ?thesis unfolding norm_name_def by (rule join_nonempty) (rule split_ws_words)
qed

lemma norm_name_strip: "norm_name (strip t) = norm_name t"
  by (simp add: norm_name_def strip_strip)

lemma norm_Anonyme: "norm_name ''Anonyme'' = ''ANONYME''"
  by (simp add: norm_name_def strip_def is_space_def upper_def upper_char_def)

lemma checkout_row_key: "norm_name (tr_name (checkout_row d inp)) \<noteq> []"
  by (simp add: checkout_row_def Let_def norm_Anonyme norm_name_strip norm_name_nonempty)

lemma upper_PROF: "upper ''PROF'' = ''PROF''" "upper ''CASH'' = ''CASH''" "upper [] = []"
  by (simp_all add: upper_def upper_char_def)

lemma checkout_row_fields:
  "tr_date_iso (checkout_row d inp) = d"
  "tr_base (checkout_row d inp) = (if upper (ci_type inp) = ''ELEVE'' then 8 else 12)"
  "tr_beverage (checkout_row d inp) = (if ci_beverage inp then 2 else 0)"
  "tr_chocolate (checkout_row d inp) = (if ci_chocolate inp then 3 / 2 else 0)"
  "tr_total (checkout_row d inp) =
     (if upper (ci_method inp) = ''CARD''
      then tr_beverage (checkout_row d inp) + tr_chocolate (checkout_row d inp)
      else tr_base (checkout_row d inp) + tr_beverage (checkout_row d inp)
           + tr_chocolate (checkout_row d inp))"
  "tr_type (checkout_row d inp) =
     (if upper (ci_type inp) = ''ELEVE'' then ''Eleve'' else ''Prof'')
     @ (if upper (ci_method inp) = ''CARD'' then '' (CARD)'' else '' (CASH)'')"
  by (simp_all add: checkout_row_def Let_def PRICES_def upper_PROF)


lemma is_closed_iff:
  "is_closed s d \<longleftrightarrow> (\<exists>x\<in>set (till s). tr_date_iso x = d \<and> tr_type x = ''Closed'')"
  by (auto simp: is_closed_def find_None_iff)

lemma build_totals_append:
  "build_totals (s\<lparr>till := till s @ rows\<rparr>) d =
     foldl totals_row (build_totals s d) (filter (\<lambda>x. tr_date_iso x = d) rows)"
  by (simp add: build_totals_def)

lemma api_checkout_cases:
  "api_checkout e s inp =
     (if is_closed s (str_or (ci_dateIso inp) (today_iso e)) then Inl Closed
      else if 45 \<le> menus (fst (build_totals s (str_or (ci_dateIso inp) (today_iso e)))) then
        (case pretty_fr_header (str_or (ci_dateIso inp) (today_iso e)) of
           Inl err \<Rightarrow> Inl err
         | Inr h \<Rightarrow> Inl CapacityExceeded)
      else Inr (s\<lparr>till := till s @ [checkout_row (str_or (ci_dateIso inp) (today_iso e)) inp]\<rparr>,
                api_caisse e
                  (s\<lparr>till := till s @ [checkout_row (str_or (ci_dateIso inp) (today_iso e)) inp]\<rparr>)
                  (Some (str_or (ci_dateIso inp) (today_iso e)))))"
  by (simp add: api_checkout_def assert_open_def assert_capacity_def Let_def MAX_MENUS_def
      split: sum.splits)







lemma totals_row_prof:
  assumes "upper (ci_type inp) \<noteq> ''ELEVE''"
  shows "profs (fst (totals_row acc (checkout_row d inp))) = profs (fst acc) + 1"
    and "eleves (fst (totals_row acc (checkout_row d inp))) = eleves (fst acc)"
    and "menus (fst (totals_row acc (checkout_row d inp))) = menus (fst acc) + 1"
  using assms
  by (simp_all add: totals_row_def Let_def checkout_row_fields lower_def lower_char_def)

lemma checkout_row_kind:
  assumes "upper (ci_type inp) \<noteq> ''ELEVE''"
  shows "checkout_row d inp = checkout_row d (inp\<lparr>ci_type := ''PROF''\<rparr>)"
  using assms by (simp add: checkout_row_def Let_def upper_PROF)

lemma totals_row_closed: "tr_type row = ''Closed'' \<Longrightarrow> totals_row acc row = acc"
  by (simp add: totals_row_def Let_def)

lemma foldl_skip_closed:
  "foldl totals_row acc (filter (\<lambda>x. tr_type x \<noteq> ''Closed'') rows) = foldl totals_row acc rows"
  by (induction rows arbitrary: acc) (simp_all add: totals_row_closed)

lemma build_totals_sales:
  "build_totals s d = foldl totals_row (Totals0, Map.empty) (sales s d)"
proof -
  have "build_totals s d =
        foldl totals_row (Totals0, Map.empty)
          (filter (\<lambda>x. tr_type x \<noteq> ''Closed'') (filter (\<lambda>x. tr_date_iso x = d) (till s)))"
    unfolding build_totals_def by (rule foldl_skip_closed[symmetric])
  also have "filter (\<lambda>x. tr_type x \<noteq> ''Closed'') (filter (\<lambda>x. tr_date_iso x = d) (till s)) = sales s d"
    unfolding sales_def by (rule filter_filter)
  finally show ?thesis .
qed

lemma api_add_closed:
  "is_closed s (str_or (qi_dateIso q) (today_iso e)) \<Longrightarrow> api_add row e s q = Inl Closed"
  by (simp add: api_add_def assert_open_def Let_def)

lemma api_add_open:
  "\<not> is_closed s (str_or (qi_dateIso q) (today_iso e)) \<Longrightarrow>
   api_add row e s q =
     Inr (s\<lparr>till := till s @ replicate (nat (max 1 (if qi_qty q = 0 then 1 else qi_qty q)))
                                 (row\<lparr>tr_date_iso := str_or (qi_dateIso q) (today_iso e)\<rparr>)\<rparr>,
          api_caisse e
            (s\<lparr>till := till s @ replicate (nat (max 1 (if qi_qty q = 0 then 1 else qi_qty q)))
                                 (row\<lparr>tr_date_iso := str_or (qi_dateIso q) (today_iso e)\<rparr>)\<rparr>)
            (Some (str_or (qi_dateIso q) (today_iso e))))"
  by (simp add: api_add_def assert_open_def Let_def)

lemma till_reserve: "till (keep s (api_reserve e s inp)) = till s"
  by (simp add: keep_def api_reserve_def split: sum.splits option.splits)

lemma till_unreserve: "till (keep s (api_unreserve e s inp)) = till s"
  by (simp add: keep_def api_unreserve_def Let_def split: sum.splits option.splits)

lemma closed_sales_till:
  "till s' = till s \<Longrightarrow> is_closed s' d = is_closed s d \<and> sales s' d = sales s d"
  by (simp add: is_closed_def sales_def)

lemma step_add_closed:
  assumes "is_closed s d"
  shows "is_closed (keep s (map_sum id fst (api_add row e s q))) d
       \<and> sales (keep s (map_sum id fst (api_add row e s q))) d = sales s d"
proof (cases "is_closed s (str_or (qi_dateIso q) (today_iso e))")
  case True
  then show ?thesis using assms by (simp add: api_add_closed keep_def)
next
  case False
  with assms have "str_or (qi_dateIso q) (today_iso e) \<noteq> d" by auto
  with assms False show ?thesis
    by (auto simp: api_add_open keep_def is_closed_iff sales_def)
qed

lemma step_closed:
  assumes "is_closed s d"
  shows "is_closed (step e s q) d \<and> sales (step e s q) d = sales s d"
proof (cases q)
  case (Reserve inp)
  then show ?thesis using assms closed_sales_till[OF till_reserve] by simp
next
  case (Unreserve inp)
  then show ?thesis using assms closed_sales_till[OF till_unreserve] by simp
next
  case (Checkout inp)
  show ?thesis
  proof (cases "is_closed s (str_or (ci_dateIso inp) (today_iso e))")
    case True
    then show ?thesis using assms Checkout by (simp add: api_checkout_cases keep_def)
  next
    case False
    with assms have "str_or (ci_dateIso inp) (today_iso e) \<noteq> d" by auto
    with assms False Checkout show ?thesis
      by (auto simp: api_checkout_cases keep_def is_closed_iff sales_def checkout_row_fields
          split: sum.splits)
  qed
next
  case (AddSandwich inp)
  then show ?thesis using step_add_closed[OF assms] by (simp add: api_add_sandwich_def)
next
  case (AddBeverage inp)
  then show ?thesis using step_add_closed[OF assms] by (simp add: api_add_beverage_def)
next
  case (AddChocolate inp)
  then show ?thesis using step_add_closed[OF assms] by (simp add: api_add_chocolate_def)
next
  case (Close inp)
  then show ?thesis using assms
    by (auto simp: api_close_def is_closed_iff sales_def blank_row_def)
qed

lemma run_closed:
  "is_closed s d \<Longrightarrow> is_closed (run s qs) d \<and> sales (run s qs) d = sales s d"
proof (induction qs arbitrary: s)
  case Nil
  then show ?case by simp
next
  case (Cons a qs)
  obtain e q where a: "a = (e, q)" by (cases a)
  from step_closed[OF Cons.prems, of e q]
  have 1: "is_closed (step e s q) d" and 2: "sales (step e s q) d = sales s d" by simp_all
  from Cons.IH[OF 1] 2 show ?case by (simp add: a)
qed

lemma closed_rejects:
  assumes "is_closed s d"
  shows "(str_or (ci_dateIso c) (today_iso e) = d \<longrightarrow>
            api_checkout e s c = Inl Closed \<and> step e s (Checkout c) = s)
       \<and> (str_or (qi_dateIso q) (today_iso e) = d \<longrightarrow>
            api_add_sandwich e s q = Inl Closed \<and> step e s (AddSandwich q) = s
            \<and> api_add_beverage e s q = Inl Closed \<and> step e s (AddBeverage q) = s
            \<and> api_add_chocolate e s q = Inl Closed \<and> step e s (AddChocolate q) = s)"
  using assms
  by (auto simp: api_checkout_cases api_add_closed keep_def api_add_sandwich_def
      api_add_beverage_def api_add_chocolate_def)

lemma to_iso_day0: "to_iso_any e ''17.03.2025'' = Inr day0"
  by (simp add: to_iso_any_def strip_def is_space_def py_int_def is_digit_def digit_val_def
      fmt_d_def zfill_def digit_char_def show_nat.simps day0_def)











lemma named_append:
  "meal_rows_named (s\<lparr>till := till s @ rows\<rparr>) =
     (meal_rows_named s \<and> list_all (\<lambda>x. \<not> is_meal x \<or> norm_name (tr_name x) \<noteq> []) rows)"
  by (simp add: meal_rows_named_def)

lemma named_till: "till s' = till s \<Longrightarrow> meal_rows_named s' = meal_rows_named s"
  by (simp add: meal_rows_named_def)

lemma step_add_named:
  assumes "meal_rows_named s" and "\<not> is_meal row"
  shows "meal_rows_named (keep s (map_sum id fst (api_add row e s q)))"
proof (cases "is_closed s (str_or (qi_dateIso q) (today_iso e))")
  case True
  then show ?thesis using assms by (simp add: api_add_closed keep_def)
next
  case False
  have "\<not> is_meal (row\<lparr>tr_date_iso := str_or (qi_dateIso q) (today_iso e)\<rparr>)"
    using assms(2) by (simp add: is_meal_def)
  then show ?thesis
    using assms(1) False by (simp add: api_add_open keep_def named_append list_all_iff)
qed

lemma step_named:
  assumes "meal_rows_named s"
  shows "meal_rows_named (step e s q)"
proof (cases q)
  case (Reserve inp)
  then show ?thesis using assms named_till[OF till_reserve] by simp
next
  case (Unreserve inp)
  then show ?thesis using assms named_till[OF till_unreserve] by simp
next
  case (Checkout inp)
  then show ?thesis using assms
    by (simp add: api_checkout_cases keep_def named_append checkout_row_key split: sum.splits)
next
  case (AddSandwich inp)
  then show ?thesis using step_add_named[OF assms]
    by (simp add: api_add_sandwich_def is_meal_def blank_row_def)
next
  case (AddBeverage inp)
  then show ?thesis using step_add_named[OF assms]
    by (simp add: api_add_beverage_def is_meal_def blank_row_def)
next
  case (AddChocolate inp)
  then show ?thesis using step_add_named[OF assms]
    by (simp add: api_add_chocolate_def is_meal_def blank_row_def)
next
  case (Close inp)
  then show ?thesis using assms
    by (simp add: api_close_def named_append is_meal_def blank_row_def)
qed

lemma run_named: "meal_rows_named s \<Longrightarrow> meal_rows_named (run s qs)"
proof (induction qs arbitrary: s)
  case Nil
  then show ?case by simp
next
  case (Cons a qs)
  obtain e q where a: "a = (e, q)" by (cases a)
  from Cons.IH[OF step_named[OF Cons.prems, of e q]] show ?case by (simp add: a)
qed

lemma named_empty: "till s = [] \<Longrightarrow> meal_rows_named s"
  by (simp add: meal_rows_named_def)







subsection \<open>The stores of the examples\<close>

lemma checkout_date_day0:
  "str_or (ci_dateIso student_cash_bev) (today_iso e) = day0"
  "str_or (ci_dateIso misspelt_kind) (today_iso e) = day0"
  "str_or (ci_dateIso walk_in) (today_iso e) = day0"
  "str_or (qi_dateIso two_sandwiches) (today_iso e) = day0"
  by (simp_all add: str_or_def student_cash_bev_def misspelt_kind_def walk_in_def
      two_sandwiches_def day0_def)






lemma open_day_facts:
  "\<not> is_closed open_day day0" "menus (fst (build_totals open_day day0)) < 45"
  by (simp_all add: is_closed_def build_totals_def open_day_def Totals0_def)

lemma closed_day_facts: "is_closed closed_day day0"
  by (simp add: is_closed_def closed_day_def blank_row_def)





section \<open>The queue of the till page\<close>



section \<open>Checkout\<close>



text \<open>
  C10. A checkout whose kind, in capitals, is not "ELEVE" (an unknown kind, the empty
  text, a misspelling) is never refused for its kind: it has the result of the same
  request with the kind "PROF". Where the date is open and below 45 menus it writes a
  row with base 12 and a "Prof" label, and the totals of the date count one more
  \<open>profs\<close>, one more \<open>menus\<close> and the same \<open>eleves\<close>.
\<close>

theorem non_eleve_is_prof:
  assumes "upper (ci_type inp) \<noteq> ''ELEVE''"
  shows "let d = str_or (ci_dateIso inp) (today_iso e);
             row = checkout_row d inp;
             s' = s\<lparr>till := till s @ [row]\<rparr>
         in api_checkout e s inp = api_checkout e s (inp\<lparr>ci_type := ''PROF''\<rparr>)
          \<and> (\<not> is_closed s d \<and> menus (fst (build_totals s d)) < 45 \<longrightarrow>
               api_checkout e s inp = Inr (s', api_caisse e s' (Some d))
               \<and> tr_base row = 12
               \<and> tr_type row = ''Prof'' @ (if upper (ci_method inp) = ''CARD'' then '' (CARD)''
                                            else '' (CASH)'')
               \<and> profs (fst (build_totals s' d)) = profs (fst (build_totals s d)) + 1
               \<and> eleves (fst (build_totals s' d)) = eleves (fst (build_totals s d))
               \<and> menus (fst (build_totals s' d)) = menus (fst (build_totals s d)) + 1)"
proof -
  let ?d = "str_or (ci_dateIso inp) (today_iso e)"
  have k: "api_checkout e s inp = api_checkout e s (inp\<lparr>ci_type := ''PROF''\<rparr>)"
    using checkout_row_kind[OF assms] by (simp add: api_checkout_cases)
  show ?thesis
    unfolding Let_def
    using assms k totals_row_prof[OF assms, of "build_totals s ?d" ?d]
    by (simp add: api_checkout_cases build_totals_append checkout_row_fields)
qed

theorem non_eleve_is_prof_witness:
  "upper (ci_type misspelt_kind) \<noteq> ''ELEVE''
   \<and> \<not> is_closed open_day day0 \<and> menus (fst (build_totals open_day day0)) < 45
   \<and> api_checkout env0 open_day misspelt_kind =
       api_checkout env0 open_day (misspelt_kind\<lparr>ci_type := ''PROF''\<rparr>)
   \<and> tr_base (checkout_row day0 misspelt_kind) = 12
   \<and> profs (fst (build_totals (open_day\<lparr>till := till open_day @ [checkout_row day0 misspelt_kind]\<rparr>)
                    day0)) =
       profs (fst (build_totals open_day day0)) + 1"
proof -
  have h: "upper (ci_type misspelt_kind) \<noteq> ''ELEVE''"
    by (simp add: misspelt_kind_def upper_def upper_char_def)
  note t = non_eleve_is_prof[OF h, of env0 open_day, unfolded Let_def checkout_date_day0]
  from t h open_day_facts show ?thesis by blast
qed

section \<open>Closing a day\<close>

text \<open>
  C3, as the code has it. Once the till of a date holds a closing marker, the date
  stays closed after every history of requests, its till rows other than markers and
  its totals never change, and a checkout or an add-on for that date is refused with
  the closed error and leaves the store as it was. Registering and unregistering do
  not look at the marker: \<open>api_reserve\<close> asks the schedule and the quota,
  \<open>api_unreserve\<close> asks for a matching name, and neither touches the till.
\<close>

theorem closed_monotone:
  assumes "is_closed s d"
  shows "is_closed (run s qs) d
       \<and> sales (run s qs) d = sales s d
       \<and> build_totals (run s qs) d = build_totals s d
       \<and> (str_or (ci_dateIso c) (today_iso e) = d \<longrightarrow>
            api_checkout e s c = Inl Closed \<and> step e s (Checkout c) = s)
       \<and> (str_or (qi_dateIso q) (today_iso e) = d \<longrightarrow>
            api_add_sandwich e s q = Inl Closed \<and> step e s (AddSandwich q) = s
            \<and> api_add_beverage e s q = Inl Closed \<and> step e s (AddBeverage q) = s
            \<and> api_add_chocolate e s q = Inl Closed \<and> step e s (AddChocolate q) = s)"
  using run_closed[OF assms, of qs] closed_rejects[OF assms, of c e q]
  by (simp add: build_totals_sales keep_def)

theorem closed_monotone_witness:
  "is_closed closed_day day0
   \<and> str_or (ci_dateIso student_cash_bev) (today_iso env0) = day0
   \<and> str_or (qi_dateIso two_sandwiches) (today_iso env0) = day0
   \<and> is_closed (run closed_day [(env0, Reserve bob), (env0, Checkout student_cash_bev),
                                 (env0, Close close_day0)]) day0
   \<and> api_checkout env0 closed_day student_cash_bev = Inl Closed
   \<and> step env0 closed_day (Checkout student_cash_bev) = closed_day
   \<and> api_add_sandwich env0 closed_day two_sandwiches = Inl Closed
   \<and> step env0 closed_day (AddChocolate two_sandwiches) = closed_day"
proof -
  note t = closed_monotone[OF closed_day_facts,
      of "[(env0, Reserve bob), (env0, Checkout student_cash_bev), (env0, Close close_day0)]"
         student_cash_bev env0 two_sandwiches]
  from t closed_day_facts checkout_date_day0(1)[of env0] checkout_date_day0(4)[of env0]
  show ?thesis by blast
qed

text \<open>
  The claim as written fails: on a closed date that the schedule still shows open, a
  registration is accepted and changes the reservations, and so is the
  unregistration that follows.
\<close>

theorem closed_day_accepts_registration_counterexample:
  "is_closed closed_day day0
   \<and> api_reserve env0 closed_day bob =
       Inr (closed_day\<lparr>reservations := [\<lparr>rs_id = 1, rs_date_iso = day0, rs_name = ''BOB''\<rparr>]\<rparr>)
   \<and> api_unreserve env0
       (closed_day\<lparr>reservations := [\<lparr>rs_id = 1, rs_date_iso = day0, rs_name = ''BOB''\<rparr>]\<rparr>)
       \<lparr>ui_name = ''BOB'', ui_dateStr = ''17.03.2025''\<rparr> = Inr closed_day"
  by (simp add: api_reserve_def api_unreserve_def to_iso_day0 bob_def closed_day_def open_day_def
      is_closed_def blank_row_def next_id_def strip_def is_space_def)

section \<open>Registration\<close>






section \<open>Walk-ins\<close>




end
